theory Spec2Isabelle
  imports Complex_Main "HOL-Library.AList"
begin

section \<open>Data model of simple.py\<close>

text \<open>
  A byte string is a character list, and a \<open>str\<close> is the character list of its
  UTF-8 encoding.  Exceptions are values.  \<open>Timeout\<close>, \<open>Blocked\<close>, \<open>Closed\<close>
  and \<open>FormatError\<close> are the four classes the module defines, which nothing
  but the module raises.  Every other exception, builtin or of a library, is
  \<open>Exc name\<close> for the name of its class, whoever raises it: \<open>ValueError\<close> is
  the same class whether \<open>Request.new\<close>, \<open>int\<close>, \<open>yarl\<close> or \<open>json\<close>
  raises it.
\<close>

type_synonym bytes = string

datatype exn = Timeout | Blocked | Closed | FormatError | Exc string

abbreviation ValueError :: exn where "ValueError \<equiv> Exc ''ValueError''"

abbreviation AssertionError :: exn where "AssertionError \<equiv> Exc ''AssertionError''"

text \<open>
  Python floats as far as the module uses them: comparison with \<^verbatim>\<open>>\<close> and
  addition.  A finite float is the real number it stands for, and the
  infinities and NaN follow IEEE 754.  The module adds to the clock only,
  which is finite: \<open>fadd rnd a t\<close> is the float sum of the finite float \<open>a\<close>
  and the float \<open>t\<close>.  The sum of two finite floats is the exact sum rounded
  to a float; the rounding, which also gives an infinity on overflow, is the
  parameter \<open>rnd\<close>.
\<close>

datatype pyfloat = Fin real | PInf | NInf | NaN

fun fgt :: "pyfloat \<Rightarrow> pyfloat \<Rightarrow> bool" where
  "fgt (Fin a) (Fin b) = (b < a)"
| "fgt (Fin a) NInf = True"
| "fgt PInf (Fin b) = True"
| "fgt PInf NInf = True"
| "fgt _ _ = False"

fun fadd :: "(real \<Rightarrow> pyfloat) \<Rightarrow> real \<Rightarrow> pyfloat \<Rightarrow> pyfloat" where
  "fadd rnd a (Fin b) = rnd (a + b)"
| "fadd rnd a PInf = PInf"
| "fadd rnd a NInf = NInf"
| "fadd rnd a NaN = NaN"

definition MAX_NOTIFICATION_PAYLOAD_SIZE :: nat where
  "MAX_NOTIFICATION_PAYLOAD_SIZE = 5120"

definition REQUIRED_FREE_SPACE :: int where
  "REQUIRED_FREE_SPACE = 6000"

subsection \<open>Events of the h2 engine\<close>

text \<open>
  The event classes the module tests with \<open>isinstance\<close>, plus \<open>StreamReset\<close> and
  \<open>ConnectionTerminated\<close> (the two classes that carry \<open>error_code\<close>) and a
  constructor for every other class, with its \<open>stream_id\<close> attribute if it has
  one.  \<open>RemoteSettingsChanged m\<close> carries the new value of
  \<open>MAX_CONCURRENT_STREAMS\<close> when the frame changed that setting.
\<close>

datatype event =
    RemoteSettingsChanged "nat option"
  | SettingsAcknowledged
  | WindowUpdated nat nat
  | ResponseReceived nat "(string \<times> string) list"
  | DataReceived nat bytes
  | StreamEnded nat
  | StreamReset nat nat
  | ConnectionTerminated nat
  | OtherEvent "nat option"

text \<open>\<open>getattr(event, "stream_id", 0)\<close> and \<open>getattr(event, "error_code", None)\<close>.\<close>

fun stream_id_of :: "event \<Rightarrow> nat" where
  "stream_id_of (WindowUpdated sid d) = sid"
| "stream_id_of (ResponseReceived sid hs) = sid"
| "stream_id_of (DataReceived sid d) = sid"
| "stream_id_of (StreamEnded sid) = sid"
| "stream_id_of (StreamReset sid e) = sid"
| "stream_id_of (OtherEvent (Some sid)) = sid"
| "stream_id_of _ = 0"

fun error_code_of :: "event \<Rightarrow> nat option" where
  "error_code_of (StreamReset sid e) = Some e"
| "error_code_of (ConnectionTerminated e) = Some e"
| "error_code_of _ = None"

subsection \<open>The h2 engine as the module uses it\<close>

text \<open>
  The engine is a library: its state is a type parameter and the calls the module
  makes are the fields of a record of functions, so every theorem holds for
  every engine.  A call that returns nothing yields \<open>None\<close> or \<open>Some name\<close> for
  a raised exception, together with the engine's state afterwards.
\<close>

record 'c h2 =
  h2_new :: 'c
  initiate_connection :: "'c \<Rightarrow> string option \<times> 'c"
  increment_flow_control_window :: "nat \<Rightarrow> nat option \<Rightarrow> 'c \<Rightarrow> string option \<times> 'c"
  outbound_flow_control_window :: "'c \<Rightarrow> int"
  open_outbound_streams :: "'c \<Rightarrow> nat"
  get_next_available_stream_id :: "'c \<Rightarrow> string + nat"
  send_headers :: "nat \<Rightarrow> (string \<times> string option) list \<Rightarrow> bool \<Rightarrow> 'c \<Rightarrow> string option \<times> 'c"
  send_data :: "nat \<Rightarrow> bytes \<Rightarrow> bool \<Rightarrow> 'c \<Rightarrow> string option \<times> 'c"
  receive_data :: "bytes \<Rightarrow> 'c \<Rightarrow> (string + event list) \<times> 'c"
  data_to_send :: "'c \<Rightarrow> bytes \<times> 'c"

subsection \<open>Channel and Connection\<close>

text \<open>An \<open>asyncio.Future\<close>: pending, completed with a result, or with an exception.\<close>

datatype future = Pending | Result | Exception exn

record channel =
  sid :: nat
  fut :: "future option"
  ev :: "event list"
  header :: "(string \<times> string) list option"
  body :: bytes

text \<open>A background task: running, suspended on the write signal, cancelled or ended.\<close>

datatype task = Running | Waiting | Cancelled | Finished

text \<open>
  Where a call of \<open>__aexit__\<close> is: not running, or suspended in
  \<open>await self.bgw\<close>, in \<open>await self.bgr\<close> or in \<open>await self.w.wait_closed()\<close>.
\<close>

datatype exit_pc = NotExiting | AwaitWriter | AwaitReader | AwaitTransport

text \<open>
  The state of a \<open>Connection\<close> object.  \<open>host\<close> and \<open>port\<close> come from the
  base URL, \<open>conn\<close> is the h2 engine,
  \<open>please_write\<close> the \<open>asyncio.Event\<close>, \<open>bgr\<close> and \<open>bgw\<close> the reader and writer
  tasks, \<open>sent\<close> the bytes written to the transport, \<open>w_closed\<close> whether the
  transport was closed, and \<open>exiting\<close> the progress of \<open>__aexit__\<close>.
\<close>

record 'c connection =
  closed :: bool
  closing :: bool
  channels :: "nat \<rightharpoonup> channel"
  host :: "string option"
  port :: "nat option"
  max_concurrent_streams :: nat
  conn :: 'c
  please_write :: bool
  bgr :: "task option"
  bgw :: "task option"
  sent :: bytes
  w_closed :: bool
  exiting :: exit_pc

text \<open>The property \<open>Connection.blocked\<close>.\<close>

definition blocked :: "'c h2 \<Rightarrow> 'c connection \<Rightarrow> bool" where
  "blocked h c =
     (closing c
      \<or> closed c
      \<or> outbound_flow_control_window h (conn c) \<le> REQUIRED_FREE_SPACE
      \<or> max_concurrent_streams c \<le> open_outbound_streams h (conn c))"


subsection \<open>int(), dict and str helpers of Python\<close>

text \<open>
  What the interpreter and its standard library contribute to \<open>Response.new\<close>:
  \<open>json.loads\<close>, which returns the decoded value or \<open>Inl name\<close> when it raises
  an exception of class \<open>name\<close>; the two tables of the Unicode database that
  \<open>int\<close> consults for characters beyond ASCII, \<open>Py_UNICODE_ISSPACE\<close> and
  \<open>Py_UNICODE_TODECIMAL\<close>; and the limit \<open>sys.get_int_max_str_digits()\<close>, 0
  when there is none.
\<close>

record 'j py =
  json_loads :: "bytes \<Rightarrow> string + 'j option"
  uni_isspace :: "nat \<Rightarrow> bool"
  uni_todecimal :: "nat \<Rightarrow> nat option"
  max_str_digits :: nat

text \<open>
  The code points of a \<open>str\<close>, read off its UTF-8 encoding: a lead byte and
  the continuation bytes it announces.  (A byte that starts no sequence
  stands for itself; the encoding of a \<open>str\<close> has none.)
\<close>

definition utf8_width :: "nat \<Rightarrow> nat" where
  "utf8_width x = (if x < 192 then 0 else if x < 224 then 1 else if x < 240 then 2 else 3)"

definition utf8_lead :: "nat \<Rightarrow> nat" where
  "utf8_lead x =
     (if x < 192 then x else if x < 224 then x mod 32 else if x < 240 then x mod 16
      else x mod 8)"

function code_points :: "string \<Rightarrow> nat list" where
  "code_points [] = []"
| "code_points (a # s) =
     foldl (\<lambda>v b. 64 * v + of_char b mod 64) (utf8_lead (of_char a))
       (take (utf8_width (of_char a)) s)
     # code_points (drop (utf8_width (of_char a)) s)"
  by pat_completeness auto
termination
  by (relation "measure length") simp_all

text \<open>
  \<open>int(s)\<close> as CPython computes it.  A string with a character beyond ASCII
  is first rewritten: characters below 127 stay, a Unicode space becomes a
  blank, a Unicode decimal digit becomes its ASCII digit, and anything else,
  the character 127 too, ends the string with a question mark.
\<close>

fun ascii_form :: "'j py \<Rightarrow> nat list \<Rightarrow> nat list" where
  "ascii_form py [] = []"
| "ascii_form py (c # cs) =
     (if c < 127 then c # ascii_form py cs
      else if c = 127 then [63]
      else if uni_isspace py c then 32 # ascii_form py cs
      else case uni_todecimal py c of
             None \<Rightarrow> [63]
           | Some d \<Rightarrow> (48 + d) # ascii_form py cs)"

definition to_ascii :: "'j py \<Rightarrow> nat list \<Rightarrow> nat list" where
  "to_ascii py cs = (if list_all (\<lambda>c. c < 128) cs then cs else ascii_form py cs)"

text \<open>
  Then \<open>PyLong_FromString\<close> in base 10: blanks of the C locale are skipped,
  one sign is read, the digits follow, with single underscores between digits
  only; beyond 640 digits the limit applies; blanks may follow, and nothing
  else.  \<open>None\<close> is \<open>ValueError\<close>.
\<close>

definition c_isspace :: "nat \<Rightarrow> bool" where
  "c_isspace c = (c = 9 \<or> c = 10 \<or> c = 11 \<or> c = 12 \<or> c = 13 \<or> c = 32)"

text \<open>
  The scan of digits and underscores: the value, the number of digits and
  what is left, or \<open>None\<close> for two underscores in a row or one at the end.
\<close>

fun scan_digits :: "bool \<Rightarrow> int \<Rightarrow> nat \<Rightarrow> nat list \<Rightarrow> (int \<times> nat \<times> nat list) option" where
  "scan_digits us acc n [] = (if us then None else Some (acc, n, []))"
| "scan_digits us acc n (c # cs) =
     (if 48 \<le> c \<and> c \<le> 57 then scan_digits False (10 * acc + (int c - 48)) (Suc n) cs
      else if c = 95 then (if us then None else scan_digits True acc n cs)
      else if us then None
      else Some (acc, n, c # cs))"

definition unsigned_long :: "nat \<Rightarrow> nat list \<Rightarrow> int option" where
  "unsigned_long maxd s =
     (case s of
        [] \<Rightarrow> None
      | c # cs \<Rightarrow>
         (if c = 95 then None
          else case scan_digits False 0 0 s of
                 None \<Rightarrow> None
               | Some (v, n, rest) \<Rightarrow>
                  (if n = 0 then None
                   else if 640 < n \<and> 0 < maxd \<and> maxd < n then None
                   else if dropWhile c_isspace rest = [] then Some v
                   else None)))"

definition long_from_string :: "nat \<Rightarrow> nat list \<Rightarrow> int option" where
  "long_from_string maxd s =
     (case dropWhile c_isspace s of
        [] \<Rightarrow> None
      | c # cs \<Rightarrow>
         (if c = 43 then unsigned_long maxd cs
          else if c = 45 then map_option uminus (unsigned_long maxd cs)
          else unsigned_long maxd (c # cs)))"

definition py_int :: "'j py \<Rightarrow> string \<Rightarrow> int option" where
  "py_int py s = long_from_string (max_str_digits py) (to_ascii py (code_points s))"

text \<open>\<open>str(n)\<close> for a non-negative integer.\<close>

fun decimal :: "nat \<Rightarrow> string" where
  "decimal n =
     (if n < 10 then [''0123456789'' ! n]
      else decimal (n div 10) @ [''0123456789'' ! (n mod 10)])"

text \<open>
  A \<open>dict\<close> is an association list with distinct keys in insertion order.
  \<open>dict(pairs)\<close> keeps the position of a key's first occurrence and the value of
  its last; \<open>header or {}\<close> is the empty dict for \<open>None\<close>.
\<close>

definition dict_of :: "('k \<times> 'v) list \<Rightarrow> ('k \<times> 'v) list" where
  "dict_of kvs = fold (\<lambda>(k, v). AList.update k v) kvs []"

definition or_empty :: "('k \<times> 'v) list option \<Rightarrow> ('k \<times> 'v) list" where
  "or_empty d = (case d of None \<Rightarrow> [] | Some kvs \<Rightarrow> kvs)"

subsection \<open>Request and Response\<close>

text \<open>
  What \<open>yarl.URL\<close> gives the module: scheme, host, port and path with query.
  The parser itself is a parameter \<open>parse\<close>, as is \<open>json.dumps(data).encode("utf-8")\<close>
  (\<open>dumps\<close>); each returns \<open>Inl name\<close> when it raises an exception of class
  \<open>name\<close>, which \<open>Request.new\<close> lets through.
\<close>

record url =
  url_scheme :: string
  url_host :: "string option"
  url_port :: "nat option"
  url_path_qs :: string

definition authority :: "url \<Rightarrow> string option" where
  "authority u =
     (if url_port u = None
         \<or> url_scheme u = ''http'' \<and> url_port u = Some 80
         \<or> url_scheme u = ''https'' \<and> url_port u = Some 443
      then url_host u
      else Some ((case url_host u of None \<Rightarrow> ''None'' | Some hst \<Rightarrow> hst) @ '':''
                 @ (case url_port u of None \<Rightarrow> ''None'' | Some p \<Rightarrow> decimal p)))"

record request =
  req_header :: "(string \<times> string option) list"
  req_body :: bytes
  deadline :: pyfloat

text \<open>
  \<open>Request.new\<close>.  \<open>now\<close> is what \<open>time.monotonic()\<close> returns if it is called,
  a finite float, and \<open>rnd\<close> the rounding of float addition.
\<close>

definition Request_new ::
  "(string \<Rightarrow> string + url) \<Rightarrow> ('d \<Rightarrow> string + bytes) \<Rightarrow> (real \<Rightarrow> pyfloat) \<Rightarrow> real \<Rightarrow>
   string \<Rightarrow> (string \<times> string) list option \<Rightarrow> 'd \<Rightarrow> pyfloat option \<Rightarrow> pyfloat option \<Rightarrow>
   exn + request" where
  "Request_new parse dumps rnd now u hdr dat timeout dl =
     (if timeout \<noteq> None \<and> dl \<noteq> None then Inl ValueError
      else
        (let dl' = (case timeout of
                      Some t \<Rightarrow> fadd rnd now t
                    | None \<Rightarrow> (case dl of None \<Rightarrow> PInf | Some d \<Rightarrow> d))
         in case parse u of
              Inl e \<Rightarrow> Inl (Exc e)
            | Inr y \<Rightarrow>
               (let pseudo = [(''method'', Some ''POST''), (''scheme'', Some (url_scheme y)),
                              (''authority'', authority y), (''path'', Some (url_path_qs y))];
                    h = map (\<lambda>(k, v). ('':'' @ k, v)) pseudo
                        @ map (\<lambda>(k, v). (k, Some v)) (or_empty hdr)
                in case dumps dat of
                     Inl e \<Rightarrow> Inl (Exc e)
                   | Inr b \<Rightarrow> Inr \<lparr>req_header = h, req_body = b, deadline = dl'\<rparr>)))"

text \<open>
  \<open>Response.new\<close>.  The decoded body is \<open>None\<close> for Python's \<open>None\<close> (JSON
  \<open>null\<close>) and \<open>Some v\<close> for any other decoded value.
\<close>

record 'j response =
  code :: int
  resp_header :: "(string \<times> string) list"
  data :: "'j option"

definition Response_new ::
  "'j py \<Rightarrow> (string \<times> string) list option \<Rightarrow> bytes \<Rightarrow> exn + 'j response" where
  "Response_new py hdr bdy =
     (let h = or_empty hdr;
          status = (case map_of h '':status'' of None \<Rightarrow> ''0'' | Some v \<Rightarrow> v);
          h' = AList.delete '':status'' h
      in case py_int py status of
           None \<Rightarrow> Inl ValueError
         | Some n \<Rightarrow>
            (if bdy = [] then Inr \<lparr>code = n, resp_header = h', data = None\<rparr>
             else case json_loads py bdy of
                    Inl e \<Rightarrow> (if e = ''JSONDecodeError'' then Inl FormatError else Inl (Exc e))
                  | Inr v \<Rightarrow> Inr \<lparr>code = n, resp_header = h', data = v\<rparr>))"


section \<open>The connection's operations\<close>

subsection \<open>Construction and \<open>__aenter__\<close>\<close>

text \<open>
  \<open>Connection(base_url)\<close>: the class attributes and \<open>__init__\<close>.  The
  attributes that only \<open>__aenter__\<close> creates hold placeholders until then.
\<close>

definition Connection_init ::
  "(string \<Rightarrow> string + url) \<Rightarrow> 'c h2 \<Rightarrow> string \<Rightarrow> exn + 'c connection" where
  "Connection_init parse h base_url =
     (case parse base_url of
        Inl e \<Rightarrow> Inl (Exc e)
      | Inr u \<Rightarrow>
          Inr \<lparr>closed = False, closing = False, channels = Map.empty,
               host = url_host u, port = url_port u,
               max_concurrent_streams = 100, conn = h2_new h, please_write = False,
               bgr = None, bgw = None, sent = [], w_closed = False,
               exiting = NotExiting\<rparr>)"

text \<open>
  What \<open>asyncio.open_connection\<close> does: it raises, or it connects; then
  \<open>Connected info proto\<close> says whether the transport has an \<open>ssl_object\<close> and
  which ALPN protocol was selected.
\<close>

datatype connect = ConnectFails string | Connected bool "string option"

definition aenter :: "'c h2 \<Rightarrow> connect \<Rightarrow> 'c connection \<Rightarrow> exn option \<times> 'c connection" where
  "aenter h co c =
     (let c0 = c\<lparr>please_write := False\<rparr>
      in case co of
           ConnectFails e \<Rightarrow> (Some (Exc e), c0)
         | Connected info proto \<Rightarrow>
            (if \<not> info then (Some AssertionError, c0)
             else if proto \<noteq> Some ''h2'' then (Some AssertionError, c0)
             else case initiate_connection h (h2_new h) of
                    (Some e, k) \<Rightarrow> (Some (Exc e), c0\<lparr>conn := k\<rparr>)
                  | (None, k1) \<Rightarrow>
                     (case increment_flow_control_window h (2 ^ 24) None k1 of
                        (Some e, k) \<Rightarrow> (Some (Exc e), c0\<lparr>conn := k\<rparr>)
                      | (None, k2) \<Rightarrow>
                          (None, c0\<lparr>conn := k2, please_write := True,
                                    bgr := Some Running, bgw := Some Running,
                                    sent := [], w_closed := False\<rparr>))))"

subsection \<open>\<open>post\<close>\<close>

text \<open>
  \<open>post\<close> runs between suspension points.  \<open>post_start\<close> is the call up to its
  first \<open>await\<close>: it raises (\<open>Inl\<close>) or suspends on the waiter of the stream it
  allocated (\<open>Inr sid\<close>).  The handler around the allocation is
  \<open>except h2.NoAvailableStreamIDError: raise Closed()\<close>, but the package \<open>h2\<close>
  has no attribute of that name (the class is \<open>h2.exceptions.NoAvailableStreamIDError\<close>):
  whatever the allocation raises, looking the name up raises \<open>AttributeError\<close>,
  and \<open>raise Closed()\<close> is never reached.  \<open>post_resume\<close> is the continuation when
  \<open>asyncio.wait_for\<close> ends, because the waiter was completed or because the
  remaining time elapsed (the waiter is still \<open>Pending\<close> then); \<open>now\<close> is the
  next reading of the clock.  It returns or raises (\<open>Done\<close>) or suspends again.
  Whatever leaves the \<open>try\<close> block runs \<open>del self.channels[sid]\<close>.
\<close>

datatype 'j outcome = Done "exn + 'j response" | Suspended nat

definition del_channel :: "nat \<Rightarrow> 'c connection \<Rightarrow> 'c connection" where
  "del_channel s c = c\<lparr>channels := (channels c)(s := None)\<rparr>"

text \<open>The head of the loop \<open>while not self.closing\<close>, with its \<open>else\<close> clause.\<close>

definition post_wait :: "nat \<Rightarrow> channel \<Rightarrow> 'c connection \<Rightarrow> exn option \<times> 'c connection" where
  "post_wait s ch c =
     (if closing c then (Some Closed, del_channel s c)
      else (None, c\<lparr>channels := (channels c)(s \<mapsto> ch\<lparr>fut := Some Pending\<rparr>)\<rparr>))"

definition post_send ::
  "'c h2 \<Rightarrow> request \<Rightarrow> nat \<Rightarrow> channel \<Rightarrow> 'c connection \<Rightarrow> (exn + nat) \<times> 'c connection" where
  "post_send h req s ch c =
     (case send_headers h s (req_header req) False (conn c) of
        (Some e, k) \<Rightarrow> (Inl (Exc e), c\<lparr>conn := k\<rparr>)
      | (None, k1) \<Rightarrow>
         (case increment_flow_control_window h (2 ^ 16) (Some s) k1 of
            (Some e, k) \<Rightarrow> (Inl (Exc e), c\<lparr>conn := k\<rparr>)
          | (None, k2) \<Rightarrow>
             (case send_data h s (req_body req) True k2 of
                (Some e, k) \<Rightarrow> (Inl (Exc e), c\<lparr>conn := k\<rparr>)
              | (None, k3) \<Rightarrow>
                 (case post_wait s ch (c\<lparr>conn := k3, please_write := True\<rparr>) of
                    (Some e, c') \<Rightarrow> (Inl e, c')
                  | (None, c') \<Rightarrow> (Inr s, c')))))"

definition post_start ::
  "'c h2 \<Rightarrow> pyfloat \<Rightarrow> request \<Rightarrow> 'c connection \<Rightarrow> (exn + nat) \<times> 'c connection" where
  "post_start h now req c =
     (if MAX_NOTIFICATION_PAYLOAD_SIZE < length (req_body req) then (Inl AssertionError, c)
      else if fgt now (deadline req) then (Inl Timeout, c)
      else if blocked h c then (Inl Blocked, c)
      else case get_next_available_stream_id h (conn c) of
             Inl e \<Rightarrow> (Inl (Exc ''AttributeError''), c)
           | Inr s \<Rightarrow>
              (if channels c s \<noteq> None then (Inl AssertionError, c)
               else (let ch = \<lparr>sid = s, fut = None, ev = [], header = None, body = []\<rparr>
                     in post_send h req s ch (c\<lparr>channels := (channels c)(s \<mapsto> ch)\<rparr>))))"

text \<open>
  The loop \<open>for event in ch.ev\<close>: the flag says whether it left through
  \<open>return\<close> at a \<open>StreamEnded\<close>; the header snapshot and the body are what
  \<open>ch.header\<close> and \<open>ch.body\<close> hold then.
\<close>

fun drain_events ::
  "event list \<Rightarrow> (string \<times> string) list option \<Rightarrow> bytes \<Rightarrow>
   bool \<times> (string \<times> string) list option \<times> bytes" where
  "drain_events [] hh bb = (False, hh, bb)"
| "drain_events (ResponseReceived s hs # es) hh bb = drain_events es (Some (dict_of hs)) bb"
| "drain_events (DataReceived s d # es) hh bb = drain_events es hh (bb @ d)"
| "drain_events (StreamEnded s # es) hh bb = (True, hh, bb)"
| "drain_events (e # es) hh bb = drain_events es hh bb"

definition post_resume ::
  "'j py \<Rightarrow> pyfloat \<Rightarrow> request \<Rightarrow> nat \<Rightarrow> 'c connection \<Rightarrow> 'j outcome \<times> 'c connection" where
  "post_resume py now req s c =
     (case channels c s of
        None \<Rightarrow> (Done (Inl (Exc ''KeyError'')), c)
      | Some ch \<Rightarrow>
         (case fut ch of
            Some (Exception e) \<Rightarrow> (Done (Inl e), del_channel s c)
          | _ \<Rightarrow>
             (if fgt now (deadline req) then (Done (Inl Timeout), del_channel s c)
              else case drain_events (ev ch) (header ch) (body ch) of
                     (True, hh, bb) \<Rightarrow> (Done (Response_new py hh bb), del_channel s c)
                   | (False, hh, bb) \<Rightarrow>
                      (case post_wait s (ch\<lparr>header := hh, body := bb\<rparr>) c of
                         (Some e, c') \<Rightarrow> (Done (Inl e), c')
                       | (None, c') \<Rightarrow> (Suspended s, c')))))"

text \<open>Cancelling the task of a suspended \<open>post\<close>: only the \<open>finally\<close> clause runs.\<close>

definition post_cancel :: "nat \<Rightarrow> 'c connection \<Rightarrow> exn \<times> 'c connection" where
  "post_cancel s c = (Exc ''CancelledError'', del_channel s c)"


subsection \<open>The reader task\<close>

text \<open>
  The loop over \<open>self.channels.items()\<close> that fails every waiter that is armed
  and not done; the reader runs it at end of stream and \<open>__aexit__\<close> at close.
\<close>

definition fail_waiters :: "(nat \<rightharpoonup> channel) \<Rightarrow> (nat \<rightharpoonup> channel)" where
  "fail_waiters chs =
     (\<lambda>s. case chs s of
             None \<Rightarrow> None
           | Some ch \<Rightarrow>
               Some (if fut ch = Some Pending then ch\<lparr>fut := Some (Exception Closed)\<rparr> else ch))"

text \<open>
  The body of \<open>for event in self.conn.receive_data(data)\<close> for one event.
  \<open>ch.fut.done()\<close> raises \<open>AttributeError\<close> on a record whose waiter is
  \<open>None\<close>, after the event was appended.
\<close>

definition process_event :: "event \<Rightarrow> 'c connection \<Rightarrow> string option \<times> 'c connection" where
  "process_event e c =
     (let c1 = (case e of
                  RemoteSettingsChanged (Some m) \<Rightarrow> c\<lparr>max_concurrent_streams := m\<rparr>
                | _ \<Rightarrow> c);
          s = stream_id_of e;
          err = error_code_of e
      in case channels c1 s of
           None \<Rightarrow> (None, if s = 0 \<and> err \<noteq> None then c1\<lparr>closing := True\<rparr> else c1)
         | Some ch \<Rightarrow>
            (case fut ch of
               None \<Rightarrow>
                 (Some ''AttributeError'',
                  c1\<lparr>channels := (channels c1)(s \<mapsto> ch\<lparr>ev := ev ch @ [e]\<rparr>)\<rparr>)
             | Some f \<Rightarrow>
                 (let c2 = c1\<lparr>channels := (channels c1)
                             (s \<mapsto> ch\<lparr>ev := ev ch @ [e],
                                      fut := Some (if f = Pending then Result else f)\<rparr>)\<rparr>
                  in (None, if s = 0 \<and> err \<noteq> None then c2\<lparr>closing := True\<rparr> else c2))))"

fun process_events :: "event list \<Rightarrow> 'c connection \<Rightarrow> string option \<times> 'c connection" where
  "process_events [] c = (None, c)"
| "process_events (e # es) c =
     (case process_event e c of
        (Some x, c') \<Rightarrow> (Some x, c')
      | (None, c') \<Rightarrow> process_events es c')"

text \<open>
  One turn of the loop of \<open>background_read\<close>: the test \<open>while not self.closed\<close>,
  the read, whose outcome \<open>rd\<close> is an exception (\<open>Inl\<close>) or the bytes read
  (\<open>Inr\<close>, empty at end of stream), and the processing of the chunk.  The
  \<open>except Exception\<close> clause only logs, and the task ends.
\<close>

definition background_read_step ::
  "'c h2 \<Rightarrow> string + bytes \<Rightarrow> 'c connection \<Rightarrow> 'c connection" where
  "background_read_step h rd c =
     (if closed c then c\<lparr>bgr := Some Finished\<rparr>
      else case rd of
             Inl e \<Rightarrow> c\<lparr>bgr := Some Finished\<rparr>
           | Inr dat \<Rightarrow>
              (if dat = []
               then c\<lparr>closing := True, closed := True,
                      channels := fail_waiters (channels c), bgr := Some Finished\<rparr>
               else case receive_data h dat (conn c) of
                      (Inl e, k) \<Rightarrow> c\<lparr>conn := k, bgr := Some Finished\<rparr>
                    | (Inr evs, k) \<Rightarrow>
                       (case process_events evs (c\<lparr>conn := k\<rparr>) of
                          (Some x, c') \<Rightarrow> c'\<lparr>bgr := Some Finished\<rparr>
                        | (None, c') \<Rightarrow> c'\<lparr>please_write := True\<rparr>)))"

subsection \<open>The writer task\<close>

text \<open>
  One turn of the inner loop of \<open>background_write\<close>.  A task that is
  \<open>Waiting\<close> is suspended in \<open>please_write.wait()\<close> and goes on, clearing the
  signal, once it is set.  \<open>wr\<close> is the outcome of \<open>write\<close> and \<open>drain\<close> if
  there is data to write.
\<close>

definition background_write_step ::
  "'c h2 \<Rightarrow> string option \<Rightarrow> 'c connection \<Rightarrow> 'c connection" where
  "background_write_step h wr c =
     (case bgw c of
        Some Waiting \<Rightarrow>
          (if please_write c then c\<lparr>please_write := False, bgw := Some Running\<rparr> else c)
      | Some Running \<Rightarrow>
          (if closed c then c\<lparr>bgw := Some Finished\<rparr>
           else case data_to_send h (conn c) of
                  (dat, k) \<Rightarrow>
                    (if dat \<noteq> []
                     then (case wr of
                             None \<Rightarrow> c\<lparr>conn := k, sent := sent c @ dat\<rparr>
                           | Some e \<Rightarrow> c\<lparr>conn := k, bgw := Some Finished\<rparr>)
                     else if please_write c then c\<lparr>conn := k, please_write := False\<rparr>
                     else c\<lparr>conn := k, bgw := Some Waiting\<rparr>))
      | _ \<Rightarrow> c)"

subsection \<open>\<open>__aexit__\<close>\<close>

text \<open>
  \<open>__aexit__\<close> between its suspension points: up to \<open>await self.bgw\<close>, up to
  \<open>await self.bgr\<close>, up to \<open>await self.w.wait_closed()\<close>, and the \<open>finally\<close>
  clause, which runs however the \<open>try\<close> block is left; \<open>wc\<close> is the exception
  that left it, if any, and \<open>ssl.SSLError\<close> from \<open>wait_closed\<close> is suppressed.
\<close>

definition cancel :: "task option \<Rightarrow> task option" where
  "cancel t = (case t of
                 Some Running \<Rightarrow> Some Cancelled
               | Some Waiting \<Rightarrow> Some Cancelled
               | _ \<Rightarrow> t)"

definition aexit_begin :: "'c connection \<Rightarrow> 'c connection" where
  "aexit_begin c = c\<lparr>closing := True, bgw := cancel (bgw c), exiting := AwaitWriter\<rparr>"

definition aexit_cancel_reader :: "'c connection \<Rightarrow> 'c connection" where
  "aexit_cancel_reader c = c\<lparr>bgr := cancel (bgr c), exiting := AwaitReader\<rparr>"

definition aexit_fanout :: "'c connection \<Rightarrow> 'c connection" where
  "aexit_fanout c =
     c\<lparr>channels := fail_waiters (channels c), w_closed := True, exiting := AwaitTransport\<rparr>"

definition aexit_finally :: "string option \<Rightarrow> 'c connection \<Rightarrow> exn option \<times> 'c connection" where
  "aexit_finally wc c =
     ((case wc of
         None \<Rightarrow> None
       | Some e \<Rightarrow> (if e = ''SSLError'' \<and> exiting c = AwaitTransport then None
                   else Some (Exc e))),
      c\<lparr>closed := True, exiting := NotExiting\<rparr>)"

text \<open>\<open>__aexit__\<close> when nothing else runs in between.\<close>

definition aexit :: "string option \<Rightarrow> 'c connection \<Rightarrow> exn option \<times> 'c connection" where
  "aexit wc c = aexit_finally wc (aexit_fanout (aexit_cancel_reader (aexit_begin c)))"

subsection \<open>Runs of a connection\<close>

text \<open>
  Everything that changes a connection, one constructor for each stretch of
  code between two suspension points, and the runs made of them.  A stopped
  reader or writer task makes no step, and a stretch of \<open>__aexit__\<close> runs only
  where the call is suspended before it.
\<close>

datatype action =
    Open connect
  | PostStart pyfloat request
  | PostResume pyfloat request nat
  | PostCancel nat
  | ReaderStep "string + bytes"
  | WriterStep "string option"
  | CloseBegin
  | CloseCancelReader
  | CloseFanout
  | CloseFinally "string option"

definition step ::
  "'c h2 \<Rightarrow> 'j py \<Rightarrow> action \<Rightarrow> 'c connection \<Rightarrow> 'c connection" where
  "step h py a c =
     (case a of
        Open co \<Rightarrow> snd (aenter h co c)
      | PostStart now req \<Rightarrow> snd (post_start h now req c)
      | PostResume now req s \<Rightarrow> snd (post_resume py now req s c)
      | PostCancel s \<Rightarrow> snd (post_cancel s c)
      | ReaderStep rd \<Rightarrow> (if bgr c = Some Running then background_read_step h rd c else c)
      | WriterStep wr \<Rightarrow> background_write_step h wr c
      | CloseBegin \<Rightarrow> aexit_begin c
      | CloseCancelReader \<Rightarrow> (if exiting c = AwaitWriter then aexit_cancel_reader c else c)
      | CloseFanout \<Rightarrow> (if exiting c = AwaitReader then aexit_fanout c else c)
      | CloseFinally wc \<Rightarrow>
          (if exiting c = NotExiting then c else snd (aexit_finally wc c)))"

fun run ::
  "'c h2 \<Rightarrow> 'j py \<Rightarrow> action list \<Rightarrow> 'c connection \<Rightarrow> 'c connection" where
  "run h py [] c = c"
| "run h py (a # as) c = run h py as (step h py a c)"


section \<open>A stand-in engine for concrete runs\<close>

text \<open>
  The theorems below hold for every engine, URL parser and JSON codec.  To run
  the model on concrete inputs, this section fixes small stand-ins: an engine
  that counts its outbound window and streams, hands out odd stream
  identifiers up to \<open>2^31 - 1\<close>, refuses data beyond the peer's stream window
  and decodes an inbound chunk with a given table; a URL parser that knows two
  URLs and raises \<open>ValueError\<close> on anything else; and an interpreter whose
  \<open>json.loads\<close> accepts the bodies that are decimal integers, whose Unicode
  tables know the spaces of Latin-1 and the Arabic-Indic digits, and whose
  limit is 4300 digits.
\<close>

record demo_codec =
  window :: int
  streams :: nat
  next_sid :: nat
  stream_window :: int
  outbox :: bytes

definition demo_h2 :: "(bytes \<Rightarrow> event list) \<Rightarrow> demo_codec h2" where
  "demo_h2 decode =
     \<lparr>h2_new = \<lparr>window = 65535, streams = 0, next_sid = 1, stream_window = 65535,
                outbox = []\<rparr>,
      initiate_connection = (\<lambda>k. (None, k\<lparr>outbox := outbox k @ ''PRI''\<rparr>)),
      increment_flow_control_window = (\<lambda>n s k. (None, k\<lparr>outbox := outbox k @ ''W''\<rparr>)),
      outbound_flow_control_window = window,
      open_outbound_streams = streams,
      get_next_available_stream_id =
        (\<lambda>k. if 2 ^ 31 - 1 < next_sid k then Inl ''NoAvailableStreamIDError''
             else Inr (next_sid k)),
      send_headers =
        (\<lambda>s hs es k. (None, k\<lparr>streams := streams k + 1, next_sid := s + 2,
                                 outbox := outbox k @ ''H''\<rparr>)),
      send_data =
        (\<lambda>s d es k. if stream_window k < int (length d) then (Some ''FlowControlError'', k)
                     else (None, k\<lparr>window := window k - int (length d),
                                     outbox := outbox k @ d\<rparr>)),
      receive_data = (\<lambda>d k. (Inr (decode d), k)),
      data_to_send = (\<lambda>k. (outbox k, k\<lparr>outbox := []\<rparr>))\<rparr>"

definition demo_decode :: "bytes \<Rightarrow> event list" where
  "demo_decode d =
     (if d = ''a'' then [ResponseReceived 1 [('':status'', ''200'')], DataReceived 1 ''42'']
      else if d = ''b'' then [StreamEnded 1]
      else if d = ''r'' then [StreamReset 1 8]
      else if d = ''g'' then [ConnectionTerminated 0]
      else if d = ''s'' then [RemoteSettingsChanged (Some 1), SettingsAcknowledged]
      else [])"

definition demo :: "demo_codec h2" where
  "demo = demo_h2 demo_decode"

definition demo_parse :: "string \<Rightarrow> string + url" where
  "demo_parse s =
     (if s = ''https://localhost:2197''
      then Inr \<lparr>url_scheme = ''https'', url_host = Some ''localhost'', url_port = Some 2197,
                url_path_qs = ''/''\<rparr>
      else if s = ''https://localhost:2197/3/device/aaa''
      then Inr \<lparr>url_scheme = ''https'', url_host = Some ''localhost'', url_port = Some 2197,
                url_path_qs = ''/3/device/aaa''\<rparr>
      else Inl ''ValueError'')"

definition demo_loads :: "bytes \<Rightarrow> string + int option" where
  "demo_loads b =
     (case long_from_string 0 (map of_char b) of
        None \<Rightarrow> Inl ''JSONDecodeError''
      | Some n \<Rightarrow> Inr (Some n))"

definition demo_py :: "int py" where
  "demo_py =
     \<lparr>json_loads = demo_loads,
      uni_isspace = (\<lambda>c. c = 133 \<or> c = 160),
      uni_todecimal = (\<lambda>c. if 1632 \<le> c \<and> c \<le> 1641 then Some (c - 1632) else None),
      max_str_digits = 4300\<rparr>"

definition demo_init :: "demo_codec connection" where
  "demo_init =
     \<lparr>closed = False, closing = False, channels = Map.empty,
      host = Some ''localhost'', port = Some 2197,
      max_concurrent_streams = 100, conn = h2_new demo, please_write = False,
      bgr = None, bgw = None, sent = [], w_closed = False,
               exiting = NotExiting\<rparr>"

definition demo_conn :: "demo_codec connection" where
  "demo_conn = snd (aenter demo (Connected True (Some ''h2'')) demo_init)"

text \<open>The open connection once the engine has run out of stream identifiers.\<close>

definition demo_exhausted :: "demo_codec connection" where
  "demo_exhausted = demo_conn\<lparr>conn := (conn demo_conn)\<lparr>next_sid := 2147483649\<rparr>\<rparr>"

definition demo_req :: "pyfloat \<Rightarrow> request" where
  "demo_req dl =
     \<lparr>req_header = [('':method'', Some ''POST''), ('':scheme'', Some ''https''),
                    ('':authority'', Some ''localhost:2197''),
                    ('':path'', Some ''/3/device/aaa'')],
      req_body = ''[42]'', deadline = dl\<rparr>"


section \<open>Rules for running the model\<close>

lemmas demo_simps =
  demo_def demo_h2_def demo_decode_def demo_conn_def demo_init_def demo_req_def
  demo_exhausted_def aenter_def

lemmas run_simps =
  step_def post_start_def post_send_def post_wait_def post_resume_def del_channel_def
  background_read_step_def process_event_def blocked_def Let_def
  MAX_NOTIFICATION_PAYLOAD_SIZE_def REQUIRED_FREE_SPACE_def

lemmas int_simps =
  py_int_def long_from_string_def unsigned_long_def to_ascii_def c_isspace_def
  utf8_width_def utf8_lead_def demo_py_def demo_loads_def

section \<open>Request.new and Response.new\<close>

text \<open>
  Claim C10, as amended.  \<open>Request.new\<close> raises \<open>ValueError\<close> whenever both a
  timeout and a deadline are supplied; that test comes first.  When at most
  one is supplied, it raises \<open>ValueError\<close> exactly when \<open>yarl.URL\<close> raises it
  on the URL, or \<open>json.dumps\<close> raises it on the data.  When both of these
  return, \<open>Request.new\<close> returns, and the deadline of the request is the float
  sum of the clock and the timeout when only a timeout is supplied (the exact
  sum rounded to a float when the timeout is finite, the timeout itself when
  it is infinite or NaN), \<open>+\<infinity>\<close> when neither is supplied, and the supplied
  deadline when only a deadline is.
\<close>

theorem Request_new_deadline:
  "(timeout \<noteq> None \<and> dl \<noteq> None
      \<longrightarrow> Request_new parse dumps rnd now u hdr dat timeout dl = Inl ValueError)
   \<and> (timeout = None \<or> dl = None
      \<longrightarrow> (Request_new parse dumps rnd now u hdr dat timeout dl = Inl ValueError)
          = (parse u = Inl ''ValueError''
             \<or> (\<exists>y. parse u = Inr y) \<and> dumps dat = Inl ''ValueError''))
   \<and> (parse u = Inr y \<and> dumps dat = Inr b \<longrightarrow>
        (\<exists>r. Request_new parse dumps rnd now u hdr dat (Some t) None = Inr r
              \<and> deadline r = (case t of Fin x \<Rightarrow> rnd (now + x) | PInf \<Rightarrow> PInf
                               | NInf \<Rightarrow> NInf | NaN \<Rightarrow> NaN))
      \<and> (\<exists>r. Request_new parse dumps rnd now u hdr dat None None = Inr r
              \<and> deadline r = PInf)
      \<and> (\<exists>r. Request_new parse dumps rnd now u hdr dat None (Some d) = Inr r
              \<and> deadline r = d))"
proof (intro conjI impI)
  assume "timeout \<noteq> None \<and> dl \<noteq> None"
  then show "Request_new parse dumps rnd now u hdr dat timeout dl = Inl ValueError"
    by (simp add: Request_new_def)
next
  assume "timeout = None \<or> dl = None"
  then show "(Request_new parse dumps rnd now u hdr dat timeout dl = Inl ValueError)
      = (parse u = Inl ''ValueError''
         \<or> (\<exists>y. parse u = Inr y) \<and> dumps dat = Inl ''ValueError'')"
    by (auto simp: Request_new_def Let_def split: sum.splits)
next
  assume ok: "parse u = Inr y \<and> dumps dat = Inr b"
  show "\<exists>r. Request_new parse dumps rnd now u hdr dat (Some t) None = Inr r
      \<and> deadline r = (case t of Fin x \<Rightarrow> rnd (now + x) | PInf \<Rightarrow> PInf
                       | NInf \<Rightarrow> NInf | NaN \<Rightarrow> NaN)"
    using ok by (cases t) (simp_all add: Request_new_def Let_def)
  show "\<exists>r. Request_new parse dumps rnd now u hdr dat None None = Inr r
      \<and> deadline r = PInf"
    using ok by (simp add: Request_new_def Let_def)
  show "\<exists>r. Request_new parse dumps rnd now u hdr dat None (Some d) = Inr r
      \<and> deadline r = d"
    using ok by (simp add: Request_new_def Let_def)
qed

theorem Request_new_deadline_witness:
  "demo_parse ''https://localhost:2197/3/device/aaa''
     = Inr \<lparr>url_scheme = ''https'', url_host = Some ''localhost'', url_port = Some 2197,
            url_path_qs = ''/3/device/aaa''\<rparr>
   \<and> Request_new demo_parse (\<lambda>d :: unit. Inr ''[42]'') Fin 10
        ''https://localhost:2197/3/device/aaa'' (Some [(''foo'', ''bar'')]) ()
        (Some (Fin 3)) None
      = Inr \<lparr>req_header = [('':method'', Some ''POST''), ('':scheme'', Some ''https''),
                ('':authority'', Some ''localhost:2197''),
                ('':path'', Some ''/3/device/aaa''), (''foo'', Some ''bar'')],
              req_body = ''[42]'', deadline = Fin 13\<rparr>
   \<and> map_sum id deadline (Request_new demo_parse (\<lambda>d :: unit. Inr ''[42]'') Fin 10
        ''https://localhost:2197/3/device/aaa'' (Some [(''foo'', ''bar'')]) () None None)
      = Inr PInf
   \<and> map_sum id deadline (Request_new demo_parse (\<lambda>d :: unit. Inr ''[42]'') Fin 10
        ''https://localhost:2197/3/device/aaa'' (Some [(''foo'', ''bar'')]) () None
        (Some (Fin 20)))
      = Inr (Fin 20)
   \<and> Request_new demo_parse (\<lambda>d :: unit. Inr ''[42]'') Fin 10
        ''https://localhost:2197/3/device/aaa'' (Some [(''foo'', ''bar'')]) ()
        (Some (Fin 3)) (Some (Fin 20))
      = Inl ValueError
   \<and> demo_parse ''http://[::1'' = Inl ''ValueError''
   \<and> Request_new demo_parse (\<lambda>d :: unit. Inr ''[42]'') Fin 10
        ''http://[::1'' None () None (Some (Fin 20))
      = Inl ValueError"
  using
    Request_new_deadline
      [where parse = demo_parse and dumps = "\<lambda>d :: unit. Inr ''[42]''" and rnd = Fin
         and now = 10 and u = "''https://localhost:2197/3/device/aaa''"
         and hdr = "Some [(''foo'', ''bar'')]" and dat = "()"
         and timeout = "Some (Fin 3)" and dl = "Some (Fin 20)"
         and t = "Fin 3" and d = "Fin 20" and b = "''[42]''"
         and y = "\<lparr>url_scheme = ''https'', url_host = Some ''localhost'',
                    url_port = Some 2197, url_path_qs = ''/3/device/aaa''\<rparr>"]
    Request_new_deadline
      [where parse = demo_parse and dumps = "\<lambda>d :: unit. Inr ''[42]''" and rnd = Fin
         and now = 10 and u = "''http://[::1''" and hdr = None and dat = "()"
         and timeout = None and dl = "Some (Fin 20)"]
  by (simp add: demo_parse_def Request_new_def authority_def or_empty_def)

text \<open>
  The claim fails on a URL that \<open>yarl.URL\<close> rejects: with only a timeout
  supplied, \<open>Request.new\<close> raises the \<open>ValueError\<close> of the parser.
\<close>

theorem Request_new_counterexample:
  "Request_new demo_parse (\<lambda>d :: unit. Inr ''[42]'') Fin 10
     ''http://[::1'' None () (Some (Fin 3)) None
   = Inl ValueError"
  by (simp add: demo_parse_def Request_new_def)

text \<open>\<open>int\<close> on a string of at most 640 ASCII digits gives its decimal value.\<close>

lemma code_points_ascii:
  "list_all (\<lambda>ch. (of_char ch :: nat) < 128) s \<Longrightarrow> code_points s = map of_char s"
  by (induction s) (simp_all add: utf8_width_def utf8_lead_def)

lemma scan_digits_all:
  "list_all (\<lambda>c. 48 \<le> c \<and> c \<le> 57) ds \<Longrightarrow>
   scan_digits False acc n ds
     = Some (foldl (\<lambda>a c. 10 * a + (int c - 48)) acc ds, n + length ds, [])"
  by (induction ds arbitrary: acc n) simp_all







section \<open>The back-pressure predicate\<close>

text \<open>
  Claim C3.  In every connection state \<open>blocked\<close> is true exactly when
  \<open>closing\<close> is set, or \<open>closed\<close> is set, or the outbound connection window is
  at most \<open>REQUIRED_FREE_SPACE\<close> (6000), or the number of open outbound streams
  has reached \<open>max_concurrent_streams\<close>.  Hence, on a connection that is
  neither closing nor closed, and for every engine state \<open>k\<close> below the stream
  cap, \<open>blocked\<close> is true exactly when the window of \<open>k\<close> is at most 6000: it
  turns true when the window drops to 6000 or less and false again when a
  window update lifts it above, nothing else changing.
\<close>

theorem blocked_iff:
  "(blocked h c =
      (closing c \<or> closed c
       \<or> outbound_flow_control_window h (conn c) \<le> 6000
       \<or> max_concurrent_streams c \<le> open_outbound_streams h (conn c)))
   \<and> (\<not> closing c \<and> \<not> closed c
        \<and> open_outbound_streams h k < max_concurrent_streams c
      \<longrightarrow> blocked h (c\<lparr>conn := k\<rparr>) = (outbound_flow_control_window h k \<le> 6000))"
  by (auto simp: blocked_def REQUIRED_FREE_SPACE_def)

theorem blocked_iff_witness:
  "\<not> closing demo_conn \<and> \<not> closed demo_conn
   \<and> open_outbound_streams demo (conn demo_conn) < max_concurrent_streams demo_conn
   \<and> \<not> blocked demo demo_conn
   \<and> blocked demo (demo_conn\<lparr>conn := (conn demo_conn)\<lparr>window := 6000\<rparr>\<rparr>)
   \<and> \<not> blocked demo (demo_conn\<lparr>conn := (conn demo_conn)\<lparr>window := 6001\<rparr>\<rparr>)"
  using blocked_iff [of demo demo_conn "(conn demo_conn)\<lparr>window := 6000\<rparr>"]
        blocked_iff [of demo demo_conn "(conn demo_conn)\<lparr>window := 6001\<rparr>"]
  by (simp add: demo_simps)

section \<open>The pre-checks of post\<close>

text \<open>
  Claim C2, as amended.  The test of the code is \<open>now > req.deadline\<close>, here
  \<open>fgt now (deadline req)\<close>.  For a request within the payload bound whose
  deadline is strictly less than the clock at entry, \<open>post\<close> raises \<open>Timeout\<close>
  and leaves the connection as it was: no frame is handed to the engine, no
  stream identifier is taken, and \<open>blocked\<close> plays no part, since the result is
  the same on a blocked connection.
\<close>

theorem post_timeout_before_send:
  assumes "length (req_body req) \<le> MAX_NOTIFICATION_PAYLOAD_SIZE"
    and "fgt now (deadline req)"
  shows "post_start h now req c = (Inl Timeout, c)"
  using assms by (simp add: post_start_def)

theorem post_timeout_before_send_witness:
  "length (req_body (demo_req (Fin 5))) \<le> MAX_NOTIFICATION_PAYLOAD_SIZE
   \<and> fgt (Fin 6) (deadline (demo_req (Fin 5)))
   \<and> blocked demo (demo_conn\<lparr>closing := True\<rparr>)
   \<and> post_start demo (Fin 6) (demo_req (Fin 5)) (demo_conn\<lparr>closing := True\<rparr>)
       = (Inl Timeout, demo_conn\<lparr>closing := True\<rparr>)"
  using post_timeout_before_send
    [of "demo_req (Fin 5)" "Fin 6" demo "demo_conn\<lparr>closing := True\<rparr>"]
  by (simp add: demo_req_def MAX_NOTIFICATION_PAYLOAD_SIZE_def blocked_def)

text \<open>
  At the boundary the claim fails: with the deadline equal to the clock (both
  5) on an open connection that is not blocked, \<open>post\<close> does not raise
  \<open>Timeout\<close>.  It takes stream 1, hands headers, a window update and the body
  to the engine and suspends on its waiter.
\<close>

theorem post_at_deadline_counterexample:
  "deadline (demo_req (Fin 5)) = Fin 5
   \<and> fst (post_start demo (Fin 5) (demo_req (Fin 5)) demo_conn) = Inr 1
   \<and> outbox (conn (snd (post_start demo (Fin 5) (demo_req (Fin 5)) demo_conn)))
       = ''PRIWHW[42]''
   \<and> map_option fut (channels (snd (post_start demo (Fin 5) (demo_req (Fin 5)) demo_conn)) 1)
       = Some (Some Pending)"
  by (simp add: demo_simps run_simps)

text \<open>
  Claim C7 fails on the code.  On the connection whose engine is past the
  last stream identifier, the allocation raises \<open>NoAvailableStreamIDError\<close>
  and \<open>post\<close> raises \<open>AttributeError\<close>, not \<open>Closed\<close>.  \<open>closing\<close> stays
  false and \<open>blocked\<close> stays false, and a second \<open>post\<close> gets past the
  \<open>blocked\<close> pre-check and ends the same way.
\<close>

theorem exhausted_ids_not_Closed:
  "get_next_available_stream_id demo (conn demo_exhausted) = Inl ''NoAvailableStreamIDError''
   \<and> fst (post_start demo (Fin 0) (demo_req PInf) demo_exhausted) = Inl (Exc ''AttributeError'')
   \<and> \<not> closing (snd (post_start demo (Fin 0) (demo_req PInf) demo_exhausted))
   \<and> \<not> blocked demo (snd (post_start demo (Fin 0) (demo_req PInf) demo_exhausted))
   \<and> fst (post_start demo (Fin 1) (demo_req PInf)
            (snd (post_start demo (Fin 0) (demo_req PInf) demo_exhausted)))
       = Inl (Exc ''AttributeError'')"
  by (simp add: demo_simps run_simps)

section \<open>The wait loop of post\<close>

text \<open>
  Claim C1 fails on the code.  The peer answers stream 1 with status 200 and
  the body \<open>42\<close>.  When the reader delivers the headers and the data in one
  chunk, \<open>post\<close> wakes up, and the end of the stream arrives in a later chunk,
  the second pass over the buffer appends the data once more: \<open>post\<close>
  returns the decoding of \<open>4242\<close>.  When both chunks arrive before \<open>post\<close>
  wakes up, it returns the decoding of \<open>42\<close>.
\<close>

theorem split_delivery_doubles_body:
  "fst (post_resume demo_py (Fin 2) (demo_req PInf) 1
         (run demo demo_py
            [PostStart (Fin 0) (demo_req PInf), ReaderStep (Inr ''a''),
             PostResume (Fin 1) (demo_req PInf) 1, ReaderStep (Inr ''b'')] demo_conn))
     = Done (Inr \<lparr>code = 200, resp_header = [], data = Some 4242\<rparr>)
   \<and> fst (post_resume demo_py (Fin 2) (demo_req PInf) 1
         (run demo demo_py
            [PostStart (Fin 0) (demo_req PInf), ReaderStep (Inr ''a''),
             ReaderStep (Inr ''b'')] demo_conn))
     = Done (Inr \<lparr>code = 200, resp_header = [], data = Some 42\<rparr>)"
  by (simp add: demo_simps run_simps Response_new_def or_empty_def dict_of_def
      int_simps)





text \<open>
  Whenever a resumed \<open>post\<close> ends, its record is gone from the table: the
  \<open>finally\<close> clause covers the wait loop.
\<close>

lemma post_resume_removes_record:
  "fst (post_resume py now req s c) = Done r \<Longrightarrow> channels c s \<noteq> None \<Longrightarrow>
   channels (snd (post_resume py now req s c)) s = None"
  by (auto simp: post_resume_def post_wait_def del_channel_def
      split: option.splits future.splits prod.splits bool.splits if_splits)

text \<open>
  Claim C6 fails on the code.  The record is stored and the frames are sent
  before the \<open>try\<close> block begins.  On a connection whose peer allows 2 bytes
  per stream, \<open>send_data\<close> raises \<open>FlowControlError\<close> for the 4 bytes of the
  body, \<open>post\<close> raises it, and the record of stream 1 stays in the table.
\<close>

theorem send_failure_leaks_record:
  "fst (post_start demo (Fin 0) (demo_req PInf)
          (demo_conn\<lparr>conn := (conn demo_conn)\<lparr>stream_window := 2\<rparr>\<rparr>))
     = Inl (Exc ''FlowControlError'')
   \<and> channels (snd (post_start demo (Fin 0) (demo_req PInf)
          (demo_conn\<lparr>conn := (conn demo_conn)\<lparr>stream_window := 2\<rparr>\<rparr>))) 1
     = Some \<lparr>sid = 1, fut = None, ev = [], header = None, body = []\<rparr>"
  by (simp add: demo_simps run_simps)

section \<open>The reader task\<close>

text \<open>
  Claim C5 fails on the code.  A \<open>post\<close> without deadline waits on stream 1.
  When the read raises \<open>ConnectionResetError\<close>, or when the engine raises
  \<open>ProtocolError\<close> on the chunk read, the reader task ends, the connection is
  neither closed nor closing and the waiter is still pending.  At end of
  stream the connection is closed and the waiter fails with \<open>Closed\<close>.
\<close>

theorem read_error_leaves_waiters:
  "\<not> closed (run demo demo_py
       [PostStart (Fin 0) (demo_req PInf), ReaderStep (Inl ''ConnectionResetError'')] demo_conn)
   \<and> \<not> closing (run demo demo_py
       [PostStart (Fin 0) (demo_req PInf), ReaderStep (Inl ''ConnectionResetError'')] demo_conn)
   \<and> bgr (run demo demo_py
       [PostStart (Fin 0) (demo_req PInf), ReaderStep (Inl ''ConnectionResetError'')] demo_conn)
     = Some Finished
   \<and> map_option fut (channels (run demo demo_py
       [PostStart (Fin 0) (demo_req PInf), ReaderStep (Inl ''ConnectionResetError'')] demo_conn) 1)
     = Some (Some Pending)
   \<and> \<not> closed (run (demo\<lparr>receive_data := (\<lambda>d k. (Inl ''ProtocolError'', k))\<rparr>) demo_py
       [PostStart (Fin 0) (demo_req PInf), ReaderStep (Inr ''a'')] demo_conn)
   \<and> map_option fut (channels
       (run (demo\<lparr>receive_data := (\<lambda>d k. (Inl ''ProtocolError'', k))\<rparr>) demo_py
          [PostStart (Fin 0) (demo_req PInf), ReaderStep (Inr ''a'')] demo_conn) 1)
     = Some (Some Pending)
   \<and> closed (run demo demo_py
       [PostStart (Fin 0) (demo_req PInf), ReaderStep (Inr [])] demo_conn)
   \<and> map_option fut (channels (run demo demo_py
       [PostStart (Fin 0) (demo_req PInf), ReaderStep (Inr [])] demo_conn) 1)
     = Some (Some (Exception Closed))"
  by (simp add: demo_simps run_simps fail_waiters_def)

section \<open>The lifecycle flags\<close>

lemma process_event_flags:
  "closed (snd (process_event e c)) = closed c"
  "exiting (snd (process_event e c)) = exiting c"
  "closing c \<Longrightarrow> closing (snd (process_event e c))"
  by (simp_all add: process_event_def Let_def split: event.splits option.splits)

lemma process_events_flags:
  "closed (snd (process_events es c)) = closed c
   \<and> exiting (snd (process_events es c)) = exiting c
   \<and> (closing c \<longrightarrow> closing (snd (process_events es c)))"
proof (induction es arbitrary: c)
  case Nil
  show ?case by simp
next
  case (Cons e es)
  show ?case
  proof (cases "process_event e c")
    case (Pair x c')
    then have "closed c' = closed c" "exiting c' = exiting c" "closing c \<longrightarrow> closing c'"
      using process_event_flags [where e = e and c = c] by simp_all
    with Pair Cons [of c'] show ?thesis by (cases x) simp_all
  qed
qed

lemma read_chunk_flags:
  assumes "process_events evs (c\<lparr>conn := k\<rparr>) = (x, c')"
  shows "closed c' = closed c" and "exiting c' = exiting c" and "closing c \<Longrightarrow> closing c'"
  using process_events_flags [of evs "c\<lparr>conn := k\<rparr>"] assms by simp_all

lemma read_flags:
  "closing c \<Longrightarrow> closing (background_read_step h rd c)"
  "closed c \<Longrightarrow> closed (background_read_step h rd c)"
  "exiting (background_read_step h rd c) = exiting c"
  "closed (background_read_step h rd c) \<Longrightarrow> \<not> closed c \<Longrightarrow>
   closing (background_read_step h rd c)"
  by (auto simp: background_read_step_def read_chunk_flags
      split: sum.splits prod.splits option.splits if_splits)

lemma write_flags:
  "closing (background_write_step h wr c) = closing c"
  "closed (background_write_step h wr c) = closed c"
  "exiting (background_write_step h wr c) = exiting c"
  by (simp_all add: background_write_step_def split: option.splits task.splits prod.splits)

lemma aenter_flags:
  "closing (snd (aenter h co c)) = closing c"
  "closed (snd (aenter h co c)) = closed c"
  "exiting (snd (aenter h co c)) = exiting c"
  by (simp_all add: aenter_def Let_def split: connect.splits option.splits prod.splits)

lemma post_send_flags:
  "closing (snd (post_send h req s ch c)) = closing c"
  "closed (snd (post_send h req s ch c)) = closed c"
  "exiting (snd (post_send h req s ch c)) = exiting c"
  by (simp_all add: post_send_def post_wait_def del_channel_def
      split: option.splits prod.splits)

lemma post_start_flags:
  "closing (snd (post_start h now req c)) = closing c"
  "closed (snd (post_start h now req c)) = closed c"
  "exiting (snd (post_start h now req c)) = exiting c"
  by (simp_all add: post_start_def Let_def post_send_flags split: sum.splits)

lemma post_resume_flags:
  "closing (snd (post_resume py now req s c)) = closing c"
  "closed (snd (post_resume py now req s c)) = closed c"
  "exiting (snd (post_resume py now req s c)) = exiting c"
  by (simp_all add: post_resume_def post_wait_def del_channel_def
      split: option.splits prod.splits future.splits bool.splits)

text \<open>
  One step: neither flag is reset, and the two facts that hold at construction,
  that \<open>closed\<close> implies \<open>closing\<close> and that a running \<open>__aexit__\<close> implies
  \<open>closing\<close>, are kept.
\<close>

lemma step_flags:
  "(closing c \<longrightarrow> closing (step h py a c))
   \<and> (closed c \<longrightarrow> closed (step h py a c))
   \<and> ((closed c \<longrightarrow> closing c) \<and> (exiting c \<noteq> NotExiting \<longrightarrow> closing c)
        \<longrightarrow> (closed (step h py a c) \<longrightarrow> closing (step h py a c))
          \<and> (exiting (step h py a c) \<noteq> NotExiting \<longrightarrow> closing (step h py a c)))"
proof (cases a)
  case (ReaderStep rd)
  then show ?thesis
    using read_flags [where c = c and h = h and rd = rd] by (auto simp: step_def)
qed (simp_all add: step_def aenter_flags post_start_flags post_resume_flags write_flags
      post_cancel_def del_channel_def aexit_begin_def aexit_cancel_reader_def aexit_fanout_def
      aexit_finally_def)

lemma run_flags:
  "(closing c \<longrightarrow> closing (run h py as c))
   \<and> (closed c \<longrightarrow> closed (run h py as c))
   \<and> ((closed c \<longrightarrow> closing c) \<and> (exiting c \<noteq> NotExiting \<longrightarrow> closing c)
        \<longrightarrow> (closed (run h py as c) \<longrightarrow> closing (run h py as c))
          \<and> (exiting (run h py as c) \<noteq> NotExiting \<longrightarrow> closing (run h py as c)))"
proof (induction as arbitrary: c)
  case Nil
  show ?case by simp
next
  case (Cons a as)
  show ?case
    using step_flags [of c h py a] Cons [of "step h py a c"] by auto
qed

text \<open>
  Claim C9.  Along every run of operations (open, the stretches of post, the
  reader's and the writer's turns, the stretches of close), from every state,
  a flag that is set stays set.  A connection is constructed with both flags
  clear, and in every state a run reaches from there \<open>closed\<close> is set only if
  \<open>closing\<close> is.
\<close>

theorem lifecycle_flags_monotone:
  "(closing c \<longrightarrow> closing (run h py as c))
   \<and> (closed c \<longrightarrow> closed (run h py as c))
   \<and> (Connection_init parse h u = Inr c
        \<longrightarrow> \<not> closing c \<and> \<not> closed c
          \<and> (closed (run h py as c) \<longrightarrow> closing (run h py as c)))"
proof -
  have "\<not> closing c \<and> \<not> closed c \<and> exiting c = NotExiting"
    if "Connection_init parse h u = Inr c"
    using that by (auto simp: Connection_init_def split: sum.splits)
  then show ?thesis
    using run_flags [of c h py as] by auto
qed

theorem lifecycle_flags_monotone_witness:
  "Connection_init demo_parse demo ''https://localhost:2197'' = Inr demo_init
   \<and> closed (run demo demo_py
        [Open (Connected True (Some ''h2'')), PostStart (Fin 0) (demo_req PInf),
         ReaderStep (Inr [])] demo_init)
   \<and> closing (run demo demo_py
        [Open (Connected True (Some ''h2'')), PostStart (Fin 0) (demo_req PInf),
         ReaderStep (Inr [])] demo_init)
   \<and> closing (snd (aexit None demo_conn)) \<and> closed (snd (aexit None demo_conn))
   \<and> closing (run demo demo_py
        [Open (Connected True (Some ''h2'')), PostStart (Fin 0) (demo_req PInf),
         WriterStep None, ReaderStep (Inr ''a'')] (snd (aexit None demo_conn)))
   \<and> closed (run demo demo_py
        [Open (Connected True (Some ''h2'')), PostStart (Fin 0) (demo_req PInf),
         WriterStep None, ReaderStep (Inr ''a'')] (snd (aexit None demo_conn)))"
  using
    lifecycle_flags_monotone
      [where c = demo_init and h = demo and py = demo_py and parse = demo_parse
         and u = "''https://localhost:2197''"
         and as = "[Open (Connected True (Some ''h2'')), PostStart (Fin 0) (demo_req PInf),
                    ReaderStep (Inr [])]"]
    lifecycle_flags_monotone
      [where c = "snd (aexit None demo_conn)" and h = demo and py = demo_py
         and parse = demo_parse and u = "''https://localhost:2197''"
         and as = "[Open (Connected True (Some ''h2'')), PostStart (Fin 0) (demo_req PInf),
                    WriterStep None, ReaderStep (Inr ''a'')]"]
  by (simp add: demo_simps run_simps fail_waiters_def Connection_init_def demo_parse_def
      aexit_def aexit_begin_def aexit_cancel_reader_def aexit_fanout_def aexit_finally_def)


section \<open>The model on further inputs\<close>

text \<open>
  \<open>int\<close> on strings of ASCII characters, whatever the interpreter: blanks
  around the number, a sign and single underscores are accepted; the
  separators \<open>0x1C\<close> to \<open>0x1F\<close>, a blank after the sign, doubled, leading or
  trailing underscores, a NUL character and the empty string are not.
\<close>

lemma py_int_ascii:
  "py_int py '' -1_0 '' = Some (- 10)"
  "py_int py [CHR 0x09, CHR ''+'', CHR ''7'', CHR 0x0A, CHR 0x0B, CHR 0x0C, CHR 0x0D] = Some 7"
  "py_int py ''007'' = Some 7"
  "py_int py [CHR 0x1C, CHR ''2''] = None"
  "py_int py [CHR ''2'', CHR 0x1F] = None"
  "py_int py ''- 1'' = None"
  "py_int py ''1__0'' = None"
  "py_int py ''_1'' = None"
  "py_int py ''1_'' = None"
  "py_int py ''1 2'' = None"
  "py_int py [CHR ''1'', CHR 0x00] = None"
  "py_int py ''0x10'' = None"
  "py_int py [] = None"
  "py_int py ''+'' = None"
  by (simp_all add: py_int_def long_from_string_def unsigned_long_def to_ascii_def
      c_isspace_def utf8_width_def utf8_lead_def)

text \<open>
  Beyond ASCII, with the tables of the stand-in interpreter: a no-break space
  (the bytes \<open>C2 A0\<close>) is skipped, the Arabic-Indic digits one and two (\<open>D9 A1\<close>,
  \<open>D9 A2\<close>) make twelve, and \<open>e\<close> with an acute accent (\<open>C3 A9\<close>) is refused.
\<close>

lemma py_int_unicode:
  "py_int demo_py [CHR 0xC2, CHR 0xA0, CHR ''2'', CHR ''0'', CHR ''0''] = Some 200"
  "py_int demo_py [CHR 0xD9, CHR 0xA1, CHR 0xD9, CHR 0xA2] = Some 12"
  "py_int demo_py [CHR ''1'', CHR 0xC3, CHR 0xA9] = None"
  "code_points [CHR 0xE2, CHR 0x82, CHR 0xAC, CHR 0xF0, CHR 0x9F, CHR 0x98, CHR 0x80]
     = [8364, 128512]"
  by (simp_all add: int_simps)

text \<open>
  The digit limit: a string of 641 digits is refused when the limit is 640
  and accepted when there is none.
\<close>

lemma py_int_limit:
  "py_int (demo_py\<lparr>max_str_digits := 640\<rparr>) (replicate (Suc 640) (CHR ''1'')) = None"
  "py_int (demo_py\<lparr>max_str_digits := 0\<rparr>) (replicate (Suc 640) (CHR ''1''))
     = Some (foldl (\<lambda>a c. 10 * a + (int c - 48)) 0 (replicate (Suc 640) 49))"
proof -
  let ?ds = "replicate (Suc 640) (49 :: nat)"
  have cp: "code_points (replicate (Suc 640) (CHR ''1'')) = ?ds"
    using code_points_ascii [of "replicate (Suc 640) (CHR ''1'')"]
    by (simp add: list_all_iff)
  have small: "list_all (\<lambda>c. c < 128) ?ds"
    by (simp add: list_all_iff)
  have sc: "scan_digits False 0 0 ?ds
      = Some (foldl (\<lambda>a c. 10 * a + (int c - 48)) 0 ?ds, Suc 640, [])"
    using scan_digits_all [of ?ds 0 0] by (simp add: list_all_iff)
  have ul: "unsigned_long maxd ?ds
      = (if 0 < maxd \<and> maxd < Suc 640 then None
         else Some (foldl (\<lambda>a c. 10 * a + (int c - 48)) 0 ?ds))" for maxd
    unfolding unsigned_long_def replicate_Suc [of 640 49] list.case sc [unfolded replicate_Suc]
    by simp
  have lf: "long_from_string maxd ?ds = unsigned_long maxd ?ds" for maxd
    unfolding long_from_string_def replicate_Suc [of 640 49]
    by (simp add: c_isspace_def)
  show "py_int (demo_py\<lparr>max_str_digits := 640\<rparr>) (replicate (Suc 640) (CHR ''1'')) = None"
    unfolding py_int_def cp to_ascii_def using small lf [of 640] ul [of 640] by simp
  show "py_int (demo_py\<lparr>max_str_digits := 0\<rparr>) (replicate (Suc 640) (CHR ''1''))
     = Some (foldl (\<lambda>a c. 10 * a + (int c - 48)) 0 (replicate (Suc 640) 49))"
    unfolding py_int_def cp to_ascii_def using small lf [of 0] ul [of 0] by simp
qed

text \<open>
  \<open>authority\<close>: the host alone for a URL without port or with the default
  port of its scheme, host and port otherwise.
\<close>

lemma authority_cases:
  "authority \<lparr>url_scheme = ''http'', url_host = Some ''h'', url_port = Some 80,
              url_path_qs = ''/''\<rparr> = Some ''h''"
  "authority \<lparr>url_scheme = ''https'', url_host = Some ''h'', url_port = Some 443,
              url_path_qs = ''/''\<rparr> = Some ''h''"
  "authority \<lparr>url_scheme = ''x'', url_host = Some ''h'', url_port = None,
              url_path_qs = ''/''\<rparr> = Some ''h''"
  "authority \<lparr>url_scheme = ''https'', url_host = Some ''h'', url_port = Some 80,
              url_path_qs = ''/''\<rparr> = Some ''h:80''"
  "authority \<lparr>url_scheme = ''http'', url_host = Some ''h'', url_port = Some 8443,
              url_path_qs = ''/''\<rparr> = Some ''h:8443''"
  by (simp_all add: authority_def)

text \<open>
  The reader on connection-level events: \<open>ConnectionTerminated\<close> sets
  \<open>closing\<close> and nothing else, so that \<open>blocked\<close> turns true; a change of
  \<open>MAX_CONCURRENT_STREAMS\<close> to 1 is taken over, and \<open>blocked\<close> turns true
  once one stream is open.
\<close>

lemma reader_connection_events:
  "closing (run demo demo_py [ReaderStep (Inr ''g'')] demo_conn)"
  "\<not> closed (run demo demo_py [ReaderStep (Inr ''g'')] demo_conn)"
  "blocked demo (run demo demo_py [ReaderStep (Inr ''g'')] demo_conn)"
  "fst (post_start demo (Fin 0) (demo_req PInf)
          (run demo demo_py [ReaderStep (Inr ''g'')] demo_conn)) = Inl Blocked"
  "max_concurrent_streams (run demo demo_py [ReaderStep (Inr ''s'')] demo_conn) = 1"
  "\<not> blocked demo (run demo demo_py [ReaderStep (Inr ''s'')] demo_conn)"
  "blocked demo (run demo demo_py
     [ReaderStep (Inr ''s''), PostStart (Fin 0) (demo_req PInf)] demo_conn)"
  by (simp_all add: demo_simps run_simps)

text \<open>
  A \<open>post\<close> whose waiter was failed at the end of stream raises \<open>Closed\<close>,
  and so does one that finds \<open>closing\<close> set after a wake-up without
  \<open>StreamEnded\<close>; both leave no record.
\<close>

lemma post_after_close:
  "post_resume demo_py (Fin 1) (demo_req PInf) 1
     (run demo demo_py [PostStart (Fin 0) (demo_req PInf), ReaderStep (Inr [])] demo_conn)
   = (Done (Inl Closed),
      del_channel 1
        (run demo demo_py [PostStart (Fin 0) (demo_req PInf), ReaderStep (Inr [])] demo_conn))"
  "fst (post_resume demo_py (Fin 1) (demo_req PInf) 1
     (run demo demo_py
        [PostStart (Fin 0) (demo_req PInf), ReaderStep (Inr ''a''), ReaderStep (Inr ''g'')]
        demo_conn))
   = Done (Inl Closed)"
  "channels (snd (post_resume demo_py (Fin 1) (demo_req PInf) 1
     (run demo demo_py
        [PostStart (Fin 0) (demo_req PInf), ReaderStep (Inr ''a''), ReaderStep (Inr ''g'')]
        demo_conn))) 1
   = None"
  by (simp_all add: demo_simps run_simps fail_waiters_def)

text \<open>
  The writer hands the engine's pending bytes to the transport, then waits
  for the signal; \<open>__aexit__\<close> sets both flags, cancels both tasks, fails the
  pending waiter and closes the transport.
\<close>

lemma writer_and_close:
  "sent (run demo demo_py [PostStart (Fin 0) (demo_req PInf), WriterStep None] demo_conn)
     = ''PRIWHW[42]''"
  "bgw (run demo demo_py
     [PostStart (Fin 0) (demo_req PInf), WriterStep None, WriterStep None, WriterStep None]
     demo_conn) = Some Waiting"
  "please_write (run demo demo_py
     [PostStart (Fin 0) (demo_req PInf), WriterStep None, WriterStep None, WriterStep None]
     demo_conn) = False"
  "bgw (run demo demo_py
     [PostStart (Fin 0) (demo_req PInf), WriterStep (Some ''BrokenPipeError'')] demo_conn)
     = Some Finished"
  "run demo demo_py [CloseBegin, CloseCancelReader, CloseFanout, CloseFinally None] demo_conn
     = snd (aexit None demo_conn)"
  "fst (aexit (Some ''SSLError'') demo_conn) = None"
  "fst (aexit (Some ''OSError'') demo_conn) = Some (Exc ''OSError'')"
  "closing (snd (aexit None demo_conn)) \<and> closed (snd (aexit None demo_conn))
   \<and> w_closed (snd (aexit None demo_conn))
   \<and> bgr (snd (aexit None demo_conn)) = Some Cancelled
   \<and> bgw (snd (aexit None demo_conn)) = Some Cancelled"
  "map_option fut (channels (snd (aexit None
      (run demo demo_py [PostStart (Fin 0) (demo_req PInf)] demo_conn))) 1)
     = Some (Some (Exception Closed))"
  by (simp_all add: demo_simps run_simps fail_waiters_def background_write_step_def
      aexit_def aexit_begin_def aexit_cancel_reader_def aexit_fanout_def aexit_finally_def
      cancel_def)

end
